theory Spec2Isabelle
  imports Main
begin

section \<open>Authentication layer of the employee API (main.py)\<close>

text \<open>
  The development embeds the authentication functions of \<^verbatim>\<open>main.py\<close>:
  \<^verbatim>\<open>verify_password\<close>, \<^verbatim>\<open>get_user\<close>, \<^verbatim>\<open>authenticate_user\<close>,
  \<^verbatim>\<open>create_access_token\<close>, \<^verbatim>\<open>get_current_user\<close>,
  \<^verbatim>\<open>get_current_active_user\<close> and \<^verbatim>\<open>login_for_access_token\<close>.

  Three things the functions read from their environment are made explicit arguments:
  \<^item> the clock: every \<^verbatim>\<open>datetime.utcnow()\<close> is an argument \<open>utcnow\<close>;
  \<^item> the module-level dictionary \<^verbatim>\<open>fake_users_db\<close>, passed as \<open>db\<close>;
  \<^item> the two third-party libraries, python-jose (\<^verbatim>\<open>jwt.encode\<close>, \<^verbatim>\<open>jwt.decode\<close>)
    and passlib (\<^verbatim>\<open>pwd_context.verify\<close>): their cryptography and serialisation are
    arguments (\<open>lib\<close>, \<open>bcrypt\<close>), their control flow around it is written out.
\<close>

subsection \<open>Configuration constants\<close>

definition SECRET_KEY :: string where
  "SECRET_KEY = ''your-very-secret-key-change-this''"

definition ALGORITHM :: string where
  "ALGORITHM = ''HS256''"

definition ACCESS_TOKEN_EXPIRE_MINUTES :: int where
  "ACCESS_TOKEN_EXPIRE_MINUTES = 60"

subsection \<open>Time\<close>

text \<open>
  A naive UTC \<^verbatim>\<open>datetime\<close> is the number of microseconds since the epoch, a
  \<^verbatim>\<open>timedelta\<close> a number of microseconds (both have microsecond resolution in
  Python). \<^verbatim>\<open>bool(timedelta)\<close> is false exactly for \<^verbatim>\<open>timedelta(0)\<close>.
  \<^verbatim>\<open>timegm(d.utctimetuple())\<close> drops the microseconds: whole seconds since the epoch.
  The range limits of \<^verbatim>\<open>datetime\<close> (years 1 to 9999) are not modelled.
\<close>

datatype datetime = Datetime (micros: int)

datatype timedelta = Timedelta (delta_micros: int)

definition timedelta_minutes :: "int \<Rightarrow> timedelta" where
  "timedelta_minutes m = Timedelta (m * 60000000)"

definition datetime_plus :: "datetime \<Rightarrow> timedelta \<Rightarrow> datetime" where
  "datetime_plus t d = Datetime (micros t + delta_micros d)"

definition timedelta_bool :: "timedelta \<Rightarrow> bool" where
  "timedelta_bool d = (delta_micros d \<noteq> 0)"

definition timegm :: "datetime \<Rightarrow> int" where
  "timegm t = micros t div 1000000"

subsection \<open>Exceptions\<close>

text \<open>
  The exceptions of \<^verbatim>\<open>jwt.decode\<close> that are instances of \<^verbatim>\<open>JWTError\<close>: the
  wrapped \<^verbatim>\<open>JWSError\<close> of the signature check, ``Invalid payload string'',
  \<^verbatim>\<open>ExpiredSignatureError\<close> and \<^verbatim>\<open>JWTClaimsError\<close>.
\<close>

datatype JWTError =
    Signature_verification_failed
  | Invalid_payload_string
  | ExpiredSignatureError
  | JWTClaimsError

text \<open>
  The exceptions that leave the functions: FastAPI's \<^verbatim>\<open>HTTPException\<close>; the two
  that passlib raises from \<^verbatim>\<open>verify\<close> (\<^verbatim>\<open>UnknownHashError\<close> is a subclass of
  \<^verbatim>\<open>ValueError\<close>); the \<^verbatim>\<open>TypeError\<close> and \<^verbatim>\<open>OverflowError\<close> of Python's
  \<^verbatim>\<open>int\<close>; pydantic's \<^verbatim>\<open>ValidationError\<close>; and the \<^verbatim>\<open>JWTError\<close>s of python-jose.
  A result is \<open>exn + 'a\<close>, with \<open>Inl\<close> the raised exception.
\<close>

datatype exn =
    HTTPException (status_code: nat) (detail: string) (headers: "(string \<times> string) list")
  | UnknownHashError
  | ValueError
  | TypeError
  | OverflowError
  | ValidationError
  | JWTError JWTError

text \<open>\<^verbatim>\<open>except JWTError\<close> catches exactly these.\<close>

definition is_JWTError :: "exn \<Rightarrow> bool" where
  "is_JWTError e = (case e of JWTError kind \<Rightarrow> True | _ \<Rightarrow> False)"

subsection \<open>Pydantic models\<close>


record User =
  username :: string
  disabled :: "bool option"

record UserInDB = User +
  hashed_password :: string

text \<open>
  \<^verbatim>\<open>fake_users_db\<close> has one entry. Its hash is computed once, when the module is
  loaded, by \<^verbatim>\<open>pwd_context.hash("secret123")\<close> with a fresh random salt: the value is
  the argument \<open>h\<close>.
\<close>

definition fake_users_db :: "string \<Rightarrow> (string \<rightharpoonup> UserInDB)" where
  "fake_users_db h =
     [''admin'' \<mapsto> \<lparr>username = ''admin'', disabled = Some False, hashed_password = h\<rparr>]"

subsection \<open>passlib: \<^verbatim>\<open>CryptContext(schemes=["bcrypt"]).verify\<close>\<close>



subsection \<open>Python values and dictionaries\<close>

text \<open>
  The values that a claims dictionary can hold: what \<^verbatim>\<open>json.loads\<close> produces
  (\<^verbatim>\<open>None\<close>, booleans, integers, floats, strings, lists and dictionaries) and the
  \<^verbatim>\<open>datetime\<close> that \<open>create_access_token\<close> stores. A finite float is \<open>n / 2 ^ k\<close>.
  A dictionary is the list of its items in insertion order; \<^verbatim>\<open>d.get(k)\<close> and
  \<^verbatim>\<open>k in d\<close> are \<open>map_of d k\<close>, and \<^verbatim>\<open>d[k] = v\<close> is \<open>dict_set k v d\<close>, which keeps the
  place of a key that is already there.
\<close>

datatype pyfloat = Finite int nat | PosInf | NegInf | NaN

datatype pyobj =
    PNone
  | PBool bool
  | PInt int
  | PFloat pyfloat
  | PStr string
  | PList "pyobj list"
  | PDict "(string \<times> pyobj) list"
  | PDatetime datetime

type_synonym pydict = "(string \<times> pyobj) list"

fun dict_set :: "string \<Rightarrow> pyobj \<Rightarrow> pydict \<Rightarrow> pydict" where
  "dict_set k v [] = [(k, v)]"
| "dict_set k v ((k', v') # d) = (if k' = k then (k, v) # d else (k', v') # dict_set k v d)"

definition is_str :: "pyobj \<Rightarrow> bool" where
  "is_str v = (case v of PStr s \<Rightarrow> True | _ \<Rightarrow> False)"

subsection \<open>python-jose: \<^verbatim>\<open>jwt.encode\<close> and \<^verbatim>\<open>jwt.decode\<close>\<close>

text \<open>
  The library's signing and parsing, and Python's reading of an integer from a string,
  are arguments:
  \<^item> \<open>jws_sign claims key algorithm\<close>: \<^verbatim>\<open>jws.sign\<close>, the compact serialisation of the
    signed payload;
  \<^item> \<open>jws_verify token key algorithms\<close>: \<^verbatim>\<open>jws.verify\<close>, the payload bytes when the
    token splits into its three segments, its algorithm is among \<open>algorithms\<close> and its
    signature verifies under \<open>key\<close>; \<open>None\<close> is its \<^verbatim>\<open>JWSError\<close>;
  \<^item> \<open>json_loads payload\<close>: \<^verbatim>\<open>json.loads\<close> followed by the test that the result is a
    mapping; \<open>None\<close> when the parse raises \<^verbatim>\<open>ValueError\<close> or the result is no mapping;
  \<^item> \<open>str_to_int s\<close>: \<^verbatim>\<open>int(s)\<close> for a string \<open>s\<close>; \<open>None\<close> is its \<^verbatim>\<open>ValueError\<close>.
\<close>

record jose =
  jws_sign :: "pydict \<Rightarrow> string \<Rightarrow> string \<Rightarrow> string"
  jws_verify :: "string \<Rightarrow> string \<Rightarrow> string list \<Rightarrow> string option"
  json_loads :: "string \<Rightarrow> pydict option"
  str_to_int :: "string \<Rightarrow> int option"

text \<open>
  \<^verbatim>\<open>jwt.encode\<close> replaces a \<^verbatim>\<open>datetime\<close> under \<^verbatim>\<open>"exp"\<close>, \<^verbatim>\<open>"iat"\<close> or
  \<^verbatim>\<open>"nbf"\<close> by \<^verbatim>\<open>timegm(claims[k].utctimetuple())\<close> and signs.
\<close>

definition intdate :: "string \<Rightarrow> pydict \<Rightarrow> pydict" where
  "intdate time_claim claims =
     (case map_of claims time_claim of
        Some (PDatetime d) \<Rightarrow> dict_set time_claim (PInt (timegm d)) claims
      | _ \<Rightarrow> claims)"

definition jwt_encode :: "jose \<Rightarrow> pydict \<Rightarrow> string \<Rightarrow> string \<Rightarrow> string" where
  "jwt_encode lib claims key algorithm =
     jws_sign lib (intdate ''nbf'' (intdate ''iat'' (intdate ''exp'' claims))) key algorithm"

text \<open>
  Python's \<^verbatim>\<open>int(v)\<close>: an integer is itself, a boolean 0 or 1, a finite float is
  truncated towards zero, a string is parsed; NaN and an unparsable string raise
  \<^verbatim>\<open>ValueError\<close>, an infinity raises \<^verbatim>\<open>OverflowError\<close>, and \<^verbatim>\<open>None\<close>, a list, a
  dictionary or a \<^verbatim>\<open>datetime\<close> raises \<^verbatim>\<open>TypeError\<close>.
\<close>

fun py_int :: "jose \<Rightarrow> pyobj \<Rightarrow> exn + int" where
  "py_int lib (PInt n) = Inr n"
| "py_int lib (PBool b) = Inr (if b then 1 else 0)"
| "py_int lib (PFloat (Finite n k)) = Inr (if 0 \<le> n then n div 2 ^ k else - ((- n) div 2 ^ k))"
| "py_int lib (PFloat NaN) = Inl ValueError"
| "py_int lib (PFloat PosInf) = Inl OverflowError"
| "py_int lib (PFloat NegInf) = Inl OverflowError"
| "py_int lib (PStr s) = (case str_to_int lib s of None \<Rightarrow> Inl ValueError | Some n \<Rightarrow> Inr n)"
| "py_int lib PNone = Inl TypeError"
| "py_int lib (PList xs) = Inl TypeError"
| "py_int lib (PDict d) = Inl TypeError"
| "py_int lib (PDatetime d) = Inl TypeError"

text \<open>
  The validators of \<^verbatim>\<open>_validate_claims\<close>, in the order in which it calls them; each
  returns the exception it raises, \<open>None\<close> when it passes. A claim that is absent
  passes. The three time claims go through \<^verbatim>\<open>int\<close> inside
  \<^verbatim>\<open>try: ... except ValueError: raise JWTClaimsError\<close>, so that any other exception
  of \<^verbatim>\<open>int\<close> leaves \<^verbatim>\<open>jwt.decode\<close> as it is. The current time is
  \<^verbatim>\<open>timegm(datetime.utcnow().utctimetuple())\<close> and the leeway is 0; one reading of the
  clock serves \<^verbatim>\<open>_validate_nbf\<close> and \<^verbatim>\<open>_validate_exp\<close>.
\<close>

definition validate_iat :: "jose \<Rightarrow> pydict \<Rightarrow> exn option" where
  "validate_iat lib claims =
     (case map_of claims ''iat'' of
        None \<Rightarrow> None
      | Some v \<Rightarrow>
          (case py_int lib v of
             Inl e \<Rightarrow> Some (if e = ValueError then JWTError JWTClaimsError else e)
           | Inr iat \<Rightarrow> None))"

definition validate_nbf :: "jose \<Rightarrow> datetime \<Rightarrow> pydict \<Rightarrow> exn option" where
  "validate_nbf lib utcnow claims =
     (case map_of claims ''nbf'' of
        None \<Rightarrow> None
      | Some v \<Rightarrow>
          (case py_int lib v of
             Inl e \<Rightarrow> Some (if e = ValueError then JWTError JWTClaimsError else e)
           | Inr nbf \<Rightarrow> if timegm utcnow < nbf then Some (JWTError JWTClaimsError) else None))"

definition validate_exp :: "jose \<Rightarrow> datetime \<Rightarrow> pydict \<Rightarrow> exn option" where
  "validate_exp lib utcnow claims =
     (case map_of claims ''exp'' of
        None \<Rightarrow> None
      | Some v \<Rightarrow>
          (case py_int lib v of
             Inl e \<Rightarrow> Some (if e = ValueError then JWTError JWTClaimsError else e)
           | Inr exp \<Rightarrow>
               if exp < timegm utcnow then Some (JWTError ExpiredSignatureError) else None))"

text \<open>
  \<^verbatim>\<open>_validate_aud\<close> with no \<^verbatim>\<open>audience\<close> given: a claim that is no string and no list
  of strings is an ``Invalid claim format'', and \<^verbatim>\<open>None\<close> is in no list of strings,
  an ``Invalid audience''; so every \<^verbatim>\<open>"aud"\<close> claim raises \<^verbatim>\<open>JWTClaimsError\<close>.
  \<^verbatim>\<open>_validate_iss\<close> checks nothing without an \<^verbatim>\<open>issuer\<close>. \<^verbatim>\<open>_validate_sub\<close> and
  \<^verbatim>\<open>_validate_jti\<close> want a string. \<^verbatim>\<open>_validate_at_hash\<close> with no \<^verbatim>\<open>access_token\<close>
  given raises on every \<^verbatim>\<open>"at_hash"\<close> claim.
\<close>

definition validate_aud :: "pydict \<Rightarrow> exn option" where
  "validate_aud claims =
     (case map_of claims ''aud'' of
        None \<Rightarrow> None
      | Some v \<Rightarrow> Some (JWTError JWTClaimsError))"

definition validate_sub :: "pydict \<Rightarrow> exn option" where
  "validate_sub claims =
     (case map_of claims ''sub'' of
        None \<Rightarrow> None
      | Some v \<Rightarrow> if is_str v then None else Some (JWTError JWTClaimsError))"

definition validate_jti :: "pydict \<Rightarrow> exn option" where
  "validate_jti claims =
     (case map_of claims ''jti'' of
        None \<Rightarrow> None
      | Some v \<Rightarrow> if is_str v then None else Some (JWTError JWTClaimsError))"

definition validate_at_hash :: "pydict \<Rightarrow> exn option" where
  "validate_at_hash claims =
     (case map_of claims ''at_hash'' of
        None \<Rightarrow> None
      | Some v \<Rightarrow> Some (JWTError JWTClaimsError))"

definition validate_claims :: "jose \<Rightarrow> datetime \<Rightarrow> pydict \<Rightarrow> exn option" where
  "validate_claims lib utcnow claims =
     (case validate_iat lib claims of Some e \<Rightarrow> Some e | None \<Rightarrow>
     (case validate_nbf lib utcnow claims of Some e \<Rightarrow> Some e | None \<Rightarrow>
     (case validate_exp lib utcnow claims of Some e \<Rightarrow> Some e | None \<Rightarrow>
     (case validate_aud claims of Some e \<Rightarrow> Some e | None \<Rightarrow>
     (case validate_sub claims of Some e \<Rightarrow> Some e | None \<Rightarrow>
     (case validate_jti claims of Some e \<Rightarrow> Some e | None \<Rightarrow>
      validate_at_hash claims))))))"

text \<open>
  \<^verbatim>\<open>jwt.decode(token, key, algorithms)\<close> with the default options: verify the
  signature, parse the payload, validate the claims, return the claims.
\<close>

definition jwt_decode ::
  "jose \<Rightarrow> datetime \<Rightarrow> string \<Rightarrow> string \<Rightarrow> string list \<Rightarrow> exn + pydict" where
  "jwt_decode lib utcnow token key algorithms =
     (case jws_verify lib token key algorithms of
        None \<Rightarrow> Inl (JWTError Signature_verification_failed)
      | Some payload \<Rightarrow>
          (case json_loads lib payload of
             None \<Rightarrow> Inl (JWTError Invalid_payload_string)
           | Some claims \<Rightarrow>
               (case validate_claims lib utcnow claims of
                  Some e \<Rightarrow> Inl e
                | None \<Rightarrow> Inr claims)))"

subsection \<open>The functions of main.py\<close>


definition get_user :: "(string \<rightharpoonup> UserInDB) \<Rightarrow> string \<Rightarrow> UserInDB option" where
  "get_user db username' =
     (case db username' of
        Some user_dict \<Rightarrow> Some user_dict
      | None \<Rightarrow> None)"


definition create_access_token ::
  "jose \<Rightarrow> datetime \<Rightarrow> pydict \<Rightarrow> timedelta option \<Rightarrow> string" where
  "create_access_token lib utcnow data expires_delta =
     (let expire =
            (case expires_delta of
               Some d \<Rightarrow>
                 if timedelta_bool d then datetime_plus utcnow d
                 else datetime_plus utcnow (timedelta_minutes 15)
             | None \<Rightarrow> datetime_plus utcnow (timedelta_minutes 15));
          to_encode = dict_set ''exp'' (PDatetime expire) data
      in jwt_encode lib to_encode SECRET_KEY ALGORITHM)"

definition credentials_exception :: exn where
  "credentials_exception =
     HTTPException 401 ''Could not validate credentials'' [(''WWW-Authenticate'', ''Bearer'')]"

text \<open>
  \<^verbatim>\<open>get_current_user\<close>: a \<^verbatim>\<open>JWTError\<close> of \<^verbatim>\<open>jwt.decode\<close> is caught and replaced by
  \<open>credentials_exception\<close>, any other exception of \<^verbatim>\<open>jwt.decode\<close> is not caught.
  \<^verbatim>\<open>payload.get("sub")\<close> is \<^verbatim>\<open>None\<close> for an absent key and for a null value.
  \<^verbatim>\<open>TokenData(username=username)\<close> is given a string, \<^verbatim>\<open>jwt.decode\<close> having raised
  on any other subject; the last branch stands for its \<^verbatim>\<open>ValidationError\<close> and is
  never taken.
\<close>

definition get_current_user ::
  "jose \<Rightarrow> (string \<rightharpoonup> UserInDB) \<Rightarrow> datetime \<Rightarrow> string \<Rightarrow> exn + UserInDB" where
  "get_current_user lib db utcnow token =
     (case jwt_decode lib utcnow token SECRET_KEY [ALGORITHM] of
        Inl e \<Rightarrow> if is_JWTError e then Inl credentials_exception else Inl e
      | Inr payload \<Rightarrow>
          (case map_of payload ''sub'' of
             None \<Rightarrow> Inl credentials_exception
           | Some PNone \<Rightarrow> Inl credentials_exception
           | Some (PStr username') \<Rightarrow>
               (case get_user db username' of
                  None \<Rightarrow> Inl credentials_exception
                | Some user \<Rightarrow>
                    if disabled user = Some True
                    then Inl (HTTPException 400 ''Inactive user'' [])
                    else Inr user)
           | Some v \<Rightarrow> Inl ValidationError))"

definition get_current_active_user :: "UserInDB \<Rightarrow> UserInDB" where
  "get_current_active_user current_user = current_user"


subsection \<open>Reading a token\<close>

text \<open>
  The claims a token carries under the process key: the payload of a token whose
  signature verifies, parsed. This is the part of \<open>jwt_decode\<close> before the validation
  of the claims.
\<close>

definition embedded_claims :: "jose \<Rightarrow> string \<Rightarrow> pydict option" where
  "embedded_claims lib token =
     (case jws_verify lib token SECRET_KEY [ALGORITHM] of
        None \<Rightarrow> None
      | Some payload \<Rightarrow> json_loads lib payload)"

text \<open>
  What the theorems about issued tokens ask of the library, for the one payload that is
  signed: the token that \<^verbatim>\<open>jws.sign\<close> makes of it verifies under the same key and
  algorithm, and parses back to the payload.
\<close>

definition jws_roundtrip :: "jose \<Rightarrow> pydict \<Rightarrow> bool" where
  "jws_roundtrip lib claims =
     (embedded_claims lib (jws_sign lib claims SECRET_KEY ALGORITHM) = Some claims)"

text \<open>
  The conditions under which \<open>validate_claims\<close> lets a claim pass: \<open>int_claim\<close> for a
  time claim that is absent or that \<^verbatim>\<open>int\<close> converts to a number satisfying \<open>P\<close>,
  \<open>str_claim\<close> for a claim that is absent or a string.
\<close>

definition int_claim :: "jose \<Rightarrow> pydict \<Rightarrow> string \<Rightarrow> (int \<Rightarrow> bool) \<Rightarrow> bool" where
  "int_claim lib claims k P =
     (case map_of claims k of
        None \<Rightarrow> True
      | Some v \<Rightarrow> (case py_int lib v of Inl e \<Rightarrow> False | Inr n \<Rightarrow> P n))"

definition str_claim :: "pydict \<Rightarrow> string \<Rightarrow> bool" where
  "str_claim claims k = (case map_of claims k of None \<Rightarrow> True | Some v \<Rightarrow> is_str v)"

subsection \<open>The acceptance conditions in the words of the specification\<close>

text \<open>
  The specification accepts a token if and only if (a) its signature verifies against
  the secret key, (b) its expiry is in the future, (c) its subject resolves to an
  existing identity that is not disabled. The first two predicates follow those words;
  they are compared with \<open>get_current_user\<close> below. The expiry of a payload is the
  instant \<open>exp\<close> seconds after the epoch; a payload without a number under \<^verbatim>\<open>"exp"\<close>
  has no expiry.
\<close>

definition spec_signature_verifies :: "jose \<Rightarrow> string \<Rightarrow> bool" where
  "spec_signature_verifies lib token =
     (jws_verify lib token SECRET_KEY [ALGORITHM] \<noteq> None)"

definition spec_expiry_in_future :: "jose \<Rightarrow> datetime \<Rightarrow> string \<Rightarrow> bool" where
  "spec_expiry_in_future lib utcnow token =
     (case embedded_claims lib token of
        None \<Rightarrow> False
      | Some claims \<Rightarrow>
          (case map_of claims ''exp'' of
             Some (PInt e) \<Rightarrow> micros utcnow < e * 1000000
           | Some (PFloat (Finite n k)) \<Rightarrow> micros utcnow * 2 ^ k < n * 1000000
           | Some (PFloat PosInf) \<Rightarrow> True
           | _ \<Rightarrow> False))"

subsection \<open>A small instance of the libraries\<close>

text \<open>
  To evaluate the functions on concrete inputs the library arguments are instantiated.
  \<open>demo_jose\<close> knows the finitely many tokens of \<open>demo_tokens\<close>, each with its payload,
  and verifies them under \<open>SECRET_KEY\<close> and \<open>ALGORITHM\<close> only; it reads integers from
  strings of decimal digits. \<open>demo_hash\<close> and \<open>demo_hash_bob\<close> are bcrypt hashes of the
  passwords \<^verbatim>\<open>secret123\<close> and \<^verbatim>\<open>hunter2\<close>. \<open>demo_bcrypt\<close> knows these two hashes and
  takes every other hash for one it cannot parse; as passlib's bcrypt handler does, it
  raises on a password that contains a NUL or is longer than 4096 bytes.
\<close>

definition demo_tokens :: "(string \<times> pydict) list" where
  "demo_tokens =
     [(''admin.3600'', [(''sub'', PStr ''admin''), (''exp'', PInt 3600)]),
      (''admin.900'', [(''sub'', PStr ''admin''), (''exp'', PInt 900)]),
      (''admin.60'', [(''sub'', PStr ''admin''), (''exp'', PInt 60)]),
      (''admin'', [(''sub'', PStr ''admin'')]),
      (''admin.null'', [(''sub'', PStr ''admin''), (''exp'', PNone)]),
      (''admin.3600.aud'', [(''sub'', PStr ''admin''), (''exp'', PInt 3600), (''aud'', PStr ''hr'')]),
      (''bob.3600'', [(''sub'', PStr ''bob''), (''exp'', PInt 3600)]),
      (''null.3600'', [(''sub'', PNone), (''exp'', PInt 3600)]),
      (''.3600'', [(''exp'', PInt 3600)]),
      (''.null'', [(''exp'', PNone)]),
      (''.3600.iat-null'', [(''exp'', PInt 3600), (''iat'', PNone)])]"

definition demo_str_to_int :: "string \<Rightarrow> int option" where
  "demo_str_to_int s =
     (if s \<noteq> [] \<and> list_all (\<lambda>c. c \<in> set ''0123456789'') s
      then Some (foldl (\<lambda>n c. 10 * n + (of_char c - 48)) 0 s)
      else None)"

definition demo_jose :: jose where
  "demo_jose =
     \<lparr>jws_sign = (\<lambda>claims key algorithm.
        if key = SECRET_KEY \<and> algorithm = ALGORITHM
        then (case find (\<lambda>(t, c). c = claims) demo_tokens of
                Some (t, c) \<Rightarrow> t
              | None \<Rightarrow> [])
        else []),
      jws_verify = (\<lambda>token key algorithms.
        if key = SECRET_KEY \<and> ALGORITHM \<in> set algorithms \<and> map_of demo_tokens token \<noteq> None
        then Some token else None),
      json_loads = map_of demo_tokens,
      str_to_int = demo_str_to_int\<rparr>"

definition demo_hash :: string where
  "demo_hash = ''$2b$12$SKRzFY75mARLdx1nTrWpX.FcuMQqKnK8JQJMx/wS5mTUJBT5q81JW''"

definition demo_hash_bob :: string where
  "demo_hash_bob = ''$2b$12$IfSIdxUW43yNLtJEjtSBMedGHZHmNlfPMWgEJhFjqH/OMvUr33tx.''"

definition demo_bcrypt :: "string \<Rightarrow> string \<Rightarrow> bool option" where
  "demo_bcrypt secret hash =
     (if CHR 0x00 \<in> set secret \<or> 4096 < length secret then None
      else if hash = demo_hash then Some (secret = ''secret123'')
      else if hash = demo_hash_bob then Some (secret = ''hunter2'')
      else None)"

text \<open>A store with a second, disabled identity beside the one of \<open>fake_users_db\<close>.\<close>

definition demo_users_db :: "string \<rightharpoonup> UserInDB" where
  "demo_users_db =
     (fake_users_db demo_hash)
       (''bob'' \<mapsto> \<lparr>username = ''bob'', disabled = Some True, hashed_password = demo_hash_bob\<rparr>)"

text \<open>The record of \<^verbatim>\<open>admin\<close> in \<open>fake_users_db demo_hash\<close>.\<close>

definition demo_admin :: UserInDB where
  "demo_admin = \<lparr>username = ''admin'', disabled = Some False, hashed_password = demo_hash\<rparr>"

section \<open>Properties\<close>

lemmas time_defs = timegm_def datetime_plus_def timedelta_minutes_def timedelta_bool_def

lemmas config_defs = SECRET_KEY_def ALGORITHM_def ACCESS_TOKEN_EXPIRE_MINUTES_def

lemmas demo_defs = demo_jose_def demo_tokens_def demo_bcrypt_def demo_users_db_def
  demo_hash_def demo_hash_bob_def demo_admin_def

lemmas validate_defs = validate_claims_def validate_iat_def validate_nbf_def validate_exp_def
  validate_aud_def validate_sub_def validate_jti_def validate_at_hash_def is_str_def

lemmas decode_defs = jwt_decode_def embedded_claims_def

subsection \<open>Dictionaries\<close>

lemma map_of_dict_set:
  "map_of (dict_set k v d) = (map_of d)(k \<mapsto> v)"
  by (induction d) (auto simp: fun_eq_iff)

lemma map_of_intdate:
  "map_of (intdate k claims) k' =
     (if k' = k
      then (case map_of claims k of
              Some (PDatetime d) \<Rightarrow> Some (PInt (timegm d))
            | other \<Rightarrow> other)
      else map_of claims k')"
  by (simp add: intdate_def map_of_dict_set split: option.splits pyobj.splits)

subsection \<open>What \<open>jwt_decode\<close> and \<open>get_current_user\<close> return\<close>

lemma validate_iat_None_iff:
  "(validate_iat lib claims = None) = int_claim lib claims ''iat'' (\<lambda>n. True)"
  by (simp add: validate_iat_def int_claim_def split: option.splits sum.splits)

lemma validate_nbf_None_iff:
  "(validate_nbf lib utcnow claims = None)
     = int_claim lib claims ''nbf'' (\<lambda>n. n \<le> timegm utcnow)"
  by (auto simp: validate_nbf_def int_claim_def split: option.splits sum.splits)

lemma validate_exp_None_iff:
  "(validate_exp lib utcnow claims = None)
     = int_claim lib claims ''exp'' (\<lambda>n. timegm utcnow \<le> n)"
  by (auto simp: validate_exp_def int_claim_def split: option.splits sum.splits)

lemma validate_aud_None_iff:
  "(validate_aud claims = None) = (map_of claims ''aud'' = None)"
  by (simp add: validate_aud_def split: option.splits)

lemma validate_sub_None_iff:
  "(validate_sub claims = None) = str_claim claims ''sub''"
  by (simp add: validate_sub_def str_claim_def split: option.splits)

lemma validate_jti_None_iff:
  "(validate_jti claims = None) = str_claim claims ''jti''"
  by (simp add: validate_jti_def str_claim_def split: option.splits)

lemma validate_at_hash_None_iff:
  "(validate_at_hash claims = None) = (map_of claims ''at_hash'' = None)"
  by (simp add: validate_at_hash_def split: option.splits)

lemma validate_claims_None_iff:
  "(validate_claims lib utcnow claims = None)
     = (int_claim lib claims ''iat'' (\<lambda>n. True)
        \<and> int_claim lib claims ''nbf'' (\<lambda>n. n \<le> timegm utcnow)
        \<and> int_claim lib claims ''exp'' (\<lambda>n. timegm utcnow \<le> n)
        \<and> map_of claims ''aud'' = None
        \<and> str_claim claims ''sub''
        \<and> str_claim claims ''jti''
        \<and> map_of claims ''at_hash'' = None)"
  unfolding validate_iat_None_iff [symmetric] validate_nbf_None_iff [symmetric]
    validate_exp_None_iff [symmetric] validate_aud_None_iff [symmetric]
    validate_sub_None_iff [symmetric] validate_jti_None_iff [symmetric]
    validate_at_hash_None_iff [symmetric]
  by (simp add: validate_claims_def split: option.splits)

lemma jwt_decode_Inr_iff:
  "(jwt_decode lib utcnow token SECRET_KEY [ALGORITHM] = Inr claims)
     = (embedded_claims lib token = Some claims \<and> validate_claims lib utcnow claims = None)"
  by (auto simp: decode_defs split: option.splits)

lemma jwt_decode_embedded:
  "embedded_claims lib token = Some claims
     \<Longrightarrow> jwt_decode lib utcnow token SECRET_KEY [ALGORITHM]
          = (case validate_claims lib utcnow claims of Some e \<Rightarrow> Inl e | None \<Rightarrow> Inr claims)"
  by (auto simp: decode_defs split: option.splits)

lemma get_current_user_decode_error:
  "jwt_decode lib utcnow token SECRET_KEY [ALGORITHM] = Inl (JWTError err)
     \<Longrightarrow> get_current_user lib db utcnow token = Inl credentials_exception"
  by (simp add: get_current_user_def is_JWTError_def)

lemma get_current_user_subject:
  "jwt_decode lib utcnow token SECRET_KEY [ALGORITHM] = Inr claims
     \<Longrightarrow> map_of claims ''sub'' = Some (PStr username')
     \<Longrightarrow> get_current_user lib db utcnow token =
          (case get_user db username' of
             None \<Rightarrow> Inl credentials_exception
           | Some user \<Rightarrow>
               if disabled user = Some True
               then Inl (HTTPException 400 ''Inactive user'' [])
               else Inr user)"
  by (simp add: get_current_user_def)

lemma get_current_user_Inr_iff:
  "(get_current_user lib db utcnow token = Inr user)
     = (\<exists>claims username'.
          embedded_claims lib token = Some claims
          \<and> validate_claims lib utcnow claims = None
          \<and> map_of claims ''sub'' = Some (PStr username')
          \<and> get_user db username' = Some user
          \<and> disabled user \<noteq> Some True)"
proof
  assume a: "get_current_user lib db utcnow token = Inr user"
  then obtain claims where d: "jwt_decode lib utcnow token SECRET_KEY [ALGORITHM] = Inr claims"
    by (cases "jwt_decode lib utcnow token SECRET_KEY [ALGORITHM]")
       (auto simp: get_current_user_def split: if_splits)
  with a obtain username' where s: "map_of claims ''sub'' = Some (PStr username')"
    by (cases "map_of claims ''sub''")
       (auto simp: get_current_user_def split: pyobj.splits)
  from a have "get_user db username' = Some user \<and> disabled user \<noteq> Some True"
    unfolding get_current_user_subject [OF d s]
    by (auto split: option.splits if_splits)
  with d s show "\<exists>claims username'.
          embedded_claims lib token = Some claims
          \<and> validate_claims lib utcnow claims = None
          \<and> map_of claims ''sub'' = Some (PStr username')
          \<and> get_user db username' = Some user
          \<and> disabled user \<noteq> Some True"
    unfolding jwt_decode_Inr_iff by blast
next
  assume "\<exists>claims username'.
          embedded_claims lib token = Some claims
          \<and> validate_claims lib utcnow claims = None
          \<and> map_of claims ''sub'' = Some (PStr username')
          \<and> get_user db username' = Some user
          \<and> disabled user \<noteq> Some True"
  then obtain claims username' where
    d: "jwt_decode lib utcnow token SECRET_KEY [ALGORITHM] = Inr claims"
    and s: "map_of claims ''sub'' = Some (PStr username')"
    and g: "get_user db username' = Some user" "disabled user \<noteq> Some True"
    unfolding jwt_decode_Inr_iff by blast
  show "get_current_user lib db utcnow token = Inr user"
    unfolding get_current_user_subject [OF d s] using g by simp
qed

lemma get_user_eq:
  "get_user db username' = db username'"
  by (simp add: get_user_def split: option.splits)

subsection \<open>What \<open>get_current_user\<close> raises\<close>

text \<open>
  The exceptions that leave \<open>get_current_user\<close>: the two \<open>HTTPException\<close>s, and the
  \<open>TypeError\<close> and \<open>OverflowError\<close> that \<^verbatim>\<open>int\<close> raises inside \<^verbatim>\<open>jwt.decode\<close>. The
  branch of \<^verbatim>\<open>TokenData\<close> for a subject that is no string is never taken.
\<close>

lemma py_int_raises:
  "py_int lib v = Inl e \<Longrightarrow> e = ValueError \<or> e = TypeError \<or> e = OverflowError"
  by (cases "(lib, v)" rule: py_int.cases) (auto split: option.splits)

lemma is_JWTError_JWTError:
  "is_JWTError (JWTError kind)"
  by (simp add: is_JWTError_def)

lemma time_claim_raises:
  assumes "py_int lib v = Inl x"
    and "(if x = ValueError then JWTError JWTClaimsError else x) = e"
  shows "is_JWTError e \<or> e = TypeError \<or> e = OverflowError"
  using py_int_raises [OF assms(1)] assms(2) by (auto simp: is_JWTError_JWTError)

lemma validate_claims_raises:
  assumes "validate_claims lib utcnow claims = Some e"
  shows "is_JWTError e \<or> e = TypeError \<or> e = OverflowError"
proof -
  have i: "validate_iat lib claims = Some e
             \<Longrightarrow> is_JWTError e \<or> e = TypeError \<or> e = OverflowError"
    by (auto simp: validate_iat_def split: option.splits sum.splits dest: time_claim_raises)
  have n: "validate_nbf lib utcnow claims = Some e
             \<Longrightarrow> is_JWTError e \<or> e = TypeError \<or> e = OverflowError"
    by (auto simp: validate_nbf_def is_JWTError_JWTError
             split: option.splits sum.splits if_splits dest: time_claim_raises)
  have x: "validate_exp lib utcnow claims = Some e
             \<Longrightarrow> is_JWTError e \<or> e = TypeError \<or> e = OverflowError"
    by (auto simp: validate_exp_def is_JWTError_JWTError
             split: option.splits sum.splits if_splits dest: time_claim_raises)
  have r: "validate_aud claims = Some e \<Longrightarrow> is_JWTError e"
    "validate_sub claims = Some e \<Longrightarrow> is_JWTError e"
    "validate_jti claims = Some e \<Longrightarrow> is_JWTError e"
    "validate_at_hash claims = Some e \<Longrightarrow> is_JWTError e"
    by (auto simp: validate_aud_def validate_sub_def validate_jti_def validate_at_hash_def
          is_JWTError_JWTError split: option.splits if_splits)
  from assms show ?thesis
    unfolding validate_claims_def
    using i n x r by (auto split: option.splits)
qed

lemma get_current_user_tokendata:
  "get_current_user lib db utcnow token \<noteq> Inl ValidationError"
proof (cases "jwt_decode lib utcnow token SECRET_KEY [ALGORITHM]")
  case (Inl e)
  then have "is_JWTError e \<or> e = TypeError \<or> e = OverflowError"
    using validate_claims_raises [of lib utcnow]
    by (auto simp: jwt_decode_def is_JWTError_def split: option.splits)
  with Inl show ?thesis
    by (auto simp: get_current_user_def credentials_exception_def)
next
  case (Inr claims)
  then have "str_claim claims ''sub''"
    by (simp add: jwt_decode_Inr_iff validate_claims_None_iff)
  with Inr show ?thesis
    by (auto simp: get_current_user_def str_claim_def is_str_def credentials_exception_def
             split: option.splits pyobj.splits)
qed

lemma get_current_user_raises:
  assumes "get_current_user lib db utcnow token = Inl x"
  shows "x = credentials_exception \<or> x = HTTPException 400 ''Inactive user'' []
       \<or> x = TypeError \<or> x = OverflowError"
proof (cases "jwt_decode lib utcnow token SECRET_KEY [ALGORITHM]")
  case (Inl e)
  then have "is_JWTError e \<or> e = TypeError \<or> e = OverflowError"
    using validate_claims_raises [of lib utcnow]
    by (auto simp: jwt_decode_def is_JWTError_JWTError split: option.splits)
  with Inl assms show ?thesis
    by (auto simp: get_current_user_def split: if_splits)
next
  case (Inr claims)
  then have "str_claim claims ''sub''"
    by (simp add: jwt_decode_Inr_iff validate_claims_None_iff)
  with Inr assms show ?thesis
    by (auto simp: get_current_user_def str_claim_def is_str_def
             split: option.splits pyobj.splits if_splits)
qed

subsection \<open>Tokens issued by \<open>create_access_token\<close>\<close>

lemma timegm_mono:
  "micros t \<le> micros t' \<Longrightarrow> timegm t \<le> timegm t'"
  by (simp add: timegm_def zdiv_mono1)

lemma timegm_second_later:
  assumes "micros t + 1000000 \<le> micros t'"
  shows "timegm t < timegm t'"
proof -
  have "(micros t + 1000000) div 1000000 \<le> micros t' div 1000000"
    using assms by (rule zdiv_mono1) simp
  moreover have "(micros t + 1000000) div 1000000 = micros t div 1000000 + 1"
    by simp
  ultimately show ?thesis
    by (simp add: timegm_def)
qed

lemma encoded_exp:
  "map_of (intdate ''nbf'' (intdate ''iat'' (intdate ''exp''
       (dict_set ''exp'' (PDatetime expire) data)))) ''exp''
     = Some (PInt (timegm expire))"
  by (simp add: map_of_intdate map_of_dict_set)

lemma issued_payload_valid:
  "validate_claims lib utcnow [(''sub'', PStr username'), (''exp'', PInt e)]
     = (if e < timegm utcnow then Some (JWTError ExpiredSignatureError) else None)"
  by (simp add: validate_defs)

lemma issued_token_claims:
  assumes "timedelta_bool ttl"
    and "jws_roundtrip lib
           [(''sub'', PStr username'), (''exp'', PInt (timegm (datetime_plus issued ttl)))]"
  shows "embedded_claims lib
           (create_access_token lib issued [(''sub'', PStr username')] (Some ttl))
         = Some [(''sub'', PStr username'), (''exp'', PInt (timegm (datetime_plus issued ttl)))]"
  using assms
  by (simp add: create_access_token_def jwt_encode_def jws_roundtrip_def intdate_def)

lemma issued_token_accepted:
  assumes "timedelta_bool ttl"
    and "jws_roundtrip lib
           [(''sub'', PStr username'), (''exp'', PInt (timegm (datetime_plus issued ttl)))]"
    and "get_user db username' = Some user"
    and "disabled user \<noteq> Some True"
    and "timegm utcnow \<le> timegm (datetime_plus issued ttl)"
  shows "get_current_user lib db utcnow
           (create_access_token lib issued [(''sub'', PStr username')] (Some ttl))
         = Inr user"
  unfolding get_current_user_Inr_iff
  using issued_token_claims [OF assms(1,2)] assms(3,4,5)
  by (simp add: issued_payload_valid)

lemma issued_token_expired:
  assumes "timedelta_bool ttl"
    and "jws_roundtrip lib
           [(''sub'', PStr username'), (''exp'', PInt (timegm (datetime_plus issued ttl)))]"
    and "timegm (datetime_plus issued ttl) < timegm utcnow"
  shows "jwt_decode lib utcnow
           (create_access_token lib issued [(''sub'', PStr username')] (Some ttl))
           SECRET_KEY [ALGORITHM]
         = Inl (JWTError ExpiredSignatureError)"
  using assms(3)
  by (simp add: jwt_decode_embedded [OF issued_token_claims [OF assms(1,2)]] issued_payload_valid)


subsection \<open>Default lifetime of an issued token\<close>

text \<open>
  C4 (as amended). When \<open>create_access_token\<close> is called without \<open>expires_delta\<close>, the
  expiry embedded in the issued token is the current time plus a hard-coded 15 minutes,
  in whole seconds since the epoch; \<open>ACCESS_TOKEN_EXPIRE_MINUTES\<close> is not consulted.
\<close>

theorem create_access_token_default_expiry:
  assumes "jws_roundtrip lib
             (intdate ''nbf'' (intdate ''iat'' (intdate ''exp''
                (dict_set ''exp''
                   (PDatetime (datetime_plus utcnow (timedelta_minutes 15))) data))))"
  shows "map_option (\<lambda>claims. map_of claims ''exp'')
           (embedded_claims lib (create_access_token lib utcnow data None))
           = Some (Some (PInt ((micros utcnow + 900000000) div 1000000)))"
proof -
  have "embedded_claims lib (create_access_token lib utcnow data None)
          = Some (intdate ''nbf'' (intdate ''iat'' (intdate ''exp''
                (dict_set ''exp''
                   (PDatetime (datetime_plus utcnow (timedelta_minutes 15))) data))))"
    using assms by (simp add: create_access_token_def jwt_encode_def jws_roundtrip_def)
  then show ?thesis
    by (simp add: encoded_exp time_defs)
qed

theorem create_access_token_default_expiry_witness:
  "jws_roundtrip demo_jose [(''sub'', PStr ''admin''), (''exp'', PInt 900)]
   \<and> map_option (\<lambda>claims. map_of claims ''exp'')
         (embedded_claims demo_jose
            (create_access_token demo_jose (Datetime 0) [(''sub'', PStr ''admin'')] None))
       = Some (Some (PInt 900))"
proof -
  have p: "intdate ''nbf'' (intdate ''iat'' (intdate ''exp''
             (dict_set ''exp'' (PDatetime (datetime_plus (Datetime 0) (timedelta_minutes 15)))
                [(''sub'', PStr ''admin'')])))
           = [(''sub'', PStr ''admin''), (''exp'', PInt 900)]"
    by (simp add: intdate_def time_defs)
  have r: "jws_roundtrip demo_jose [(''sub'', PStr ''admin''), (''exp'', PInt 900)]"
    by (simp add: jws_roundtrip_def embedded_claims_def demo_defs config_defs)
  from create_access_token_default_expiry
         [of demo_jose "Datetime 0" "[(''sub'', PStr ''admin'')]", unfolded p, OF r] r
  show ?thesis by simp
qed

text \<open>
  The claim as stated, that the default is \<open>ACCESS_TOKEN_EXPIRE_MINUTES\<close>, fails: a
  token issued at the epoch without \<open>expires_delta\<close> does not expire at 3600 seconds.
\<close>

theorem create_access_token_default_counterexample:
  "map_option (\<lambda>claims. map_of claims ''exp'')
     (embedded_claims demo_jose
        (create_access_token demo_jose (Datetime 0) [(''sub'', PStr ''admin'')] None))
     \<noteq> Some (Some (PInt (timegm (datetime_plus (Datetime 0)
                                      (timedelta_minutes ACCESS_TOKEN_EXPIRE_MINUTES)))))"
  by (simp add: create_access_token_def jwt_encode_def intdate_def embedded_claims_def
        demo_defs config_defs time_defs)

subsection \<open>Password verification\<close>




subsection \<open>Unknown user and wrong password\<close>




subsection \<open>Log in, then present the token\<close>



subsection \<open>The lifetime of a token\<close>

text \<open>
  C8 (as amended). A token issued with a time-to-live \<open>ttl\<close> other than zero for an
  existing identity that is not disabled validates at every time up to and including
  the issuance time plus \<open>ttl\<close>, and at every time at least one second after the
  issuance time plus \<open>ttl\<close> it is rejected: \<open>jwt_decode\<close> raises
  \<open>ExpiredSignatureError\<close> and \<open>get_current_user\<close> raises \<open>credentials_exception\<close>.
\<close>

theorem token_lifetime:
  assumes "timedelta_bool ttl"
    and "jws_roundtrip lib
           [(''sub'', PStr username'), (''exp'', PInt (timegm (datetime_plus issued ttl)))]"
    and "get_user db username' = Some user"
    and "disabled user \<noteq> Some True"
  shows "(micros utcnow \<le> micros issued + delta_micros ttl
            \<longrightarrow> get_current_user lib db utcnow
                  (create_access_token lib issued [(''sub'', PStr username')] (Some ttl))
                = Inr user)
       \<and> (micros issued + delta_micros ttl + 1000000 \<le> micros utcnow
            \<longrightarrow> jwt_decode lib utcnow
                  (create_access_token lib issued [(''sub'', PStr username')] (Some ttl))
                  SECRET_KEY [ALGORITHM]
                = Inl (JWTError ExpiredSignatureError)
              \<and> get_current_user lib db utcnow
                  (create_access_token lib issued [(''sub'', PStr username')] (Some ttl))
                = Inl credentials_exception)"
proof (intro conjI impI)
  assume "micros utcnow \<le> micros issued + delta_micros ttl"
  then have "timegm utcnow \<le> timegm (datetime_plus issued ttl)"
    by (intro timegm_mono) (simp add: datetime_plus_def)
  with assms show "get_current_user lib db utcnow
                  (create_access_token lib issued [(''sub'', PStr username')] (Some ttl))
                = Inr user"
    by (rule issued_token_accepted)
next
  assume "micros issued + delta_micros ttl + 1000000 \<le> micros utcnow"
  then have "timegm (datetime_plus issued ttl) < timegm utcnow"
    by (intro timegm_second_later) (simp add: datetime_plus_def)
  with assms(1,2) show e: "jwt_decode lib utcnow
                  (create_access_token lib issued [(''sub'', PStr username')] (Some ttl))
                  SECRET_KEY [ALGORITHM]
                = Inl (JWTError ExpiredSignatureError)"
    by (rule issued_token_expired)
  then show "get_current_user lib db utcnow
                  (create_access_token lib issued [(''sub'', PStr username')] (Some ttl))
                = Inl credentials_exception"
    by (rule get_current_user_decode_error)
qed

theorem token_lifetime_witness:
  "get_current_user demo_jose (fake_users_db demo_hash) (Datetime 60000000)
     (create_access_token demo_jose (Datetime 0) [(''sub'', PStr ''admin'')]
        (Some (timedelta_minutes 1)))
     = Inr demo_admin
   \<and> get_current_user demo_jose (fake_users_db demo_hash) (Datetime 61000000)
     (create_access_token demo_jose (Datetime 0) [(''sub'', PStr ''admin'')]
        (Some (timedelta_minutes 1)))
     = Inl credentials_exception"
proof -
  have b: "timedelta_bool (timedelta_minutes 1)"
    by (simp add: time_defs)
  have r: "jws_roundtrip demo_jose
             [(''sub'', PStr ''admin''),
              (''exp'', PInt (timegm (datetime_plus (Datetime 0) (timedelta_minutes 1))))]"
    by (simp add: jws_roundtrip_def embedded_claims_def demo_jose_def demo_tokens_def
          config_defs time_defs)
  have g: "get_user (fake_users_db demo_hash) ''admin'' = Some demo_admin"
    by (simp add: get_user_def fake_users_db_def demo_admin_def)
  have d: "disabled demo_admin \<noteq> Some True"
    by (simp add: demo_admin_def)
  have t1: "micros (Datetime 60000000) \<le> micros (Datetime 0) + delta_micros (timedelta_minutes 1)"
    and t2: "micros (Datetime 0) + delta_micros (timedelta_minutes 1) + 1000000
               \<le> micros (Datetime 61000000)"
    by (simp_all add: time_defs)
  from token_lifetime [OF b r g d, of "Datetime 60000000"] t1
  have c1: "get_current_user demo_jose (fake_users_db demo_hash) (Datetime 60000000)
     (create_access_token demo_jose (Datetime 0) [(''sub'', PStr ''admin'')]
        (Some (timedelta_minutes 1)))
     = Inr demo_admin"
    by blast
  from token_lifetime [OF b r g d, of "Datetime 61000000"] t2
  have c2: "get_current_user demo_jose (fake_users_db demo_hash) (Datetime 61000000)
     (create_access_token demo_jose (Datetime 0) [(''sub'', PStr ''admin'')]
        (Some (timedelta_minutes 1)))
     = Inl credentials_exception"
    by blast
  from c1 c2 show ?thesis by blast
qed

text \<open>
  The claim as stated fails within the second of the expiry: a token issued at the
  epoch for one minute is still accepted 60.5 seconds after the epoch. It also fails
  for a time-to-live of zero, which \<open>create_access_token\<close> takes for a missing one.
\<close>

theorem token_lifetime_counterexample:
  "micros (datetime_plus (Datetime 0) (timedelta_minutes 1)) < micros (Datetime 60500000)
   \<and> get_current_user demo_jose (fake_users_db demo_hash) (Datetime 60500000)
       (create_access_token demo_jose (Datetime 0) [(''sub'', PStr ''admin'')]
          (Some (timedelta_minutes 1)))
     = Inr demo_admin
   \<and> micros (datetime_plus (Datetime 0) (Timedelta 0)) < micros (Datetime 1000000)
   \<and> get_current_user demo_jose (fake_users_db demo_hash) (Datetime 1000000)
       (create_access_token demo_jose (Datetime 0) [(''sub'', PStr ''admin'')]
          (Some (Timedelta 0)))
     = Inr demo_admin"
proof -
  have k1: "create_access_token demo_jose (Datetime 0) [(''sub'', PStr ''admin'')]
              (Some (timedelta_minutes 1)) = ''admin.60''"
    and k2: "create_access_token demo_jose (Datetime 0) [(''sub'', PStr ''admin'')]
              (Some (Timedelta 0)) = ''admin.900''"
    by (simp_all add: create_access_token_def jwt_encode_def intdate_def demo_jose_def
          demo_tokens_def config_defs time_defs)
  have g1: "get_current_user demo_jose (fake_users_db demo_hash) (Datetime 60500000) ''admin.60''
     = Inr demo_admin"
    and g2: "get_current_user demo_jose (fake_users_db demo_hash) (Datetime 1000000) ''admin.900''
     = Inr demo_admin"
    by (simp_all add: get_current_user_def decode_defs validate_defs get_user_def
          fake_users_db_def demo_jose_def demo_tokens_def demo_admin_def config_defs time_defs)
  have t: "micros (datetime_plus (Datetime 0) (timedelta_minutes 1)) < micros (Datetime 60500000)"
    "micros (datetime_plus (Datetime 0) (Timedelta 0)) < micros (Datetime 1000000)"
    by (simp_all add: time_defs)
  from k1 k2 g1 g2 t show ?thesis by simp
qed

subsection \<open>The principal handed to the protected handlers\<close>

text \<open>
  C9 (as amended). The principal that a successful validation hands to the protected
  handlers is the record of the credential store itself, a \<open>UserInDB\<close> with the fields
  \<open>username\<close>, \<open>disabled\<close> and \<open>hashed_password\<close>, found under the subject of the
  token; \<open>get_current_active_user\<close> returns it unchanged.
\<close>

theorem get_current_user_returns_stored_record:
  assumes "get_current_user lib db utcnow token = Inr current_user"
  shows "\<exists>claims username'.
           embedded_claims lib token = Some claims
           \<and> map_of claims ''sub'' = Some (PStr username')
           \<and> db username' = Some current_user
           \<and> get_current_active_user current_user = current_user
           \<and> get_user db username' = Some (get_current_active_user current_user)"
proof -
  from assms obtain claims username' where c: "embedded_claims lib token = Some claims"
    and s: "map_of claims ''sub'' = Some (PStr username')"
    and g: "get_user db username' = Some current_user"
    unfolding get_current_user_Inr_iff by blast
  from g have "db username' = Some current_user"
    by (simp add: get_user_eq)
  with c s g show ?thesis
    by (auto simp: get_current_active_user_def)
qed

theorem get_current_user_returns_stored_record_witness:
  "get_current_user demo_jose (fake_users_db demo_hash) (Datetime 0) ''admin.3600''
     = Inr demo_admin
   \<and> (\<exists>username'. fake_users_db demo_hash username' = Some demo_admin)"
proof -
  have g: "get_current_user demo_jose (fake_users_db demo_hash) (Datetime 0) ''admin.3600''
     = Inr demo_admin"
    by (simp add: get_current_user_def decode_defs validate_defs get_user_def
          fake_users_db_def demo_jose_def demo_tokens_def demo_admin_def config_defs time_defs)
  from get_current_user_returns_stored_record [OF g] g
  show ?thesis by blast
qed

text \<open>
  The claim as stated, that the principal does not carry the stored password hash,
  fails: the principal of the token of \<open>admin\<close> carries the hash of \<open>fake_users_db\<close>.
\<close>

theorem principal_carries_hashed_password_counterexample:
  "(case get_current_user demo_jose (fake_users_db demo_hash) (Datetime 0) ''admin.3600'' of
      Inl e \<Rightarrow> None
    | Inr current_user \<Rightarrow> Some (hashed_password (get_current_active_user current_user)))
   = Some demo_hash"
  by (simp add: get_current_user_def get_current_active_user_def decode_defs validate_defs
        get_user_def fake_users_db_def demo_jose_def demo_tokens_def config_defs time_defs)

subsection \<open>The order of the checks\<close>



subsection \<open>When a token is accepted\<close>

text \<open>
  C1 (as amended). \<open>get_current_user\<close> accepts a token, returning the identity
  \<open>user\<close>, if and only if the signature verifies against the process key, the payload
  parses to a dictionary that passes the library's validation of the claims, and the
  \<^verbatim>\<open>"sub"\<close> claim is a string under which the store holds \<open>user\<close>, whose \<open>disabled\<close>
  is not true. The validation passes exactly when \<^verbatim>\<open>"iat"\<close>, \<^verbatim>\<open>"nbf"\<close> and
  \<^verbatim>\<open>"exp"\<close>, where present, are values that \<^verbatim>\<open>int\<close> converts, \<^verbatim>\<open>"nbf"\<close> is not later
  and \<^verbatim>\<open>"exp"\<close> not earlier than the current time in whole seconds, there is no
  \<^verbatim>\<open>"aud"\<close> and no \<^verbatim>\<open>"at_hash"\<close> claim, and \<^verbatim>\<open>"sub"\<close> and \<^verbatim>\<open>"jti"\<close>, where present,
  are strings.
\<close>

theorem get_current_user_accepts_iff:
  "(get_current_user lib db utcnow token = Inr user)
     = (spec_signature_verifies lib token
        \<and> (\<exists>claims username'.
              embedded_claims lib token = Some claims
              \<and> int_claim lib claims ''iat'' (\<lambda>n. True)
              \<and> int_claim lib claims ''nbf'' (\<lambda>n. n \<le> timegm utcnow)
              \<and> int_claim lib claims ''exp'' (\<lambda>n. timegm utcnow \<le> n)
              \<and> map_of claims ''aud'' = None
              \<and> str_claim claims ''jti''
              \<and> map_of claims ''at_hash'' = None
              \<and> map_of claims ''sub'' = Some (PStr username')
              \<and> get_user db username' = Some user
              \<and> disabled user \<noteq> Some True))"
proof -
  have v: "\<And>claims. embedded_claims lib token = Some claims
             \<Longrightarrow> spec_signature_verifies lib token"
    by (auto simp: embedded_claims_def spec_signature_verifies_def split: option.splits)
  have s: "\<And>claims username'. map_of claims ''sub'' = Some (PStr username')
             \<Longrightarrow> str_claim claims ''sub''"
    by (simp add: str_claim_def is_str_def)
  show ?thesis
    unfolding get_current_user_Inr_iff validate_claims_None_iff
    using v s by blast
qed

theorem get_current_user_accepts_iff_witness:
  "get_current_user demo_jose (fake_users_db demo_hash) (Datetime 0) ''admin.3600''
     = Inr demo_admin
   \<and> spec_signature_verifies demo_jose ''admin.3600''
   \<and> get_current_user demo_jose (fake_users_db demo_hash) (Datetime 0) ''admin.3600.aud''
     \<noteq> Inr demo_admin"
proof -
  have g: "get_current_user demo_jose (fake_users_db demo_hash) (Datetime 0) ''admin.3600''
     = Inr demo_admin"
    by (simp add: get_current_user_def decode_defs validate_defs get_user_def
          fake_users_db_def demo_jose_def demo_tokens_def demo_admin_def config_defs time_defs)
  have e: "embedded_claims demo_jose ''admin.3600.aud''
             = Some [(''sub'', PStr ''admin''), (''exp'', PInt 3600), (''aud'', PStr ''hr'')]"
    by (simp add: embedded_claims_def demo_jose_def demo_tokens_def)
  have a: "map_of [(''sub'', PStr ''admin''), (''exp'', PInt 3600), (''aud'', PStr ''hr'')] ''aud''
             \<noteq> None"
    by simp
  from get_current_user_accepts_iff
         [where lib = demo_jose and db = "fake_users_db demo_hash"
            and utcnow = "Datetime 0" and token = "''admin.3600''" and user = demo_admin]
       g
  have c1: "spec_signature_verifies demo_jose ''admin.3600''"
    by blast
  from get_current_user_accepts_iff
         [where lib = demo_jose and db = "fake_users_db demo_hash"
            and utcnow = "Datetime 0" and token = "''admin.3600.aud''" and user = demo_admin]
       e a
  have c2: "get_current_user demo_jose (fake_users_db demo_hash) (Datetime 0) ''admin.3600.aud''
     \<noteq> Inr demo_admin"
    by auto
  from g c1 c2 show ?thesis by blast
qed

text \<open>
  The claim as stated fails: a correctly signed token without an \<^verbatim>\<open>"exp"\<close> claim is
  accepted, and so is a token whose expiry, 60 seconds after the epoch, lies half a
  second in the past.
\<close>

theorem get_current_user_accepts_counterexample:
  "get_current_user demo_jose (fake_users_db demo_hash) (Datetime 0) ''admin'' = Inr demo_admin
   \<and> \<not> spec_expiry_in_future demo_jose (Datetime 0) ''admin''
   \<and> get_current_user demo_jose (fake_users_db demo_hash) (Datetime 60500000) ''admin.60''
     = Inr demo_admin
   \<and> \<not> spec_expiry_in_future demo_jose (Datetime 60500000) ''admin.60''"
proof -
  have g: "get_current_user demo_jose (fake_users_db demo_hash) (Datetime 0) ''admin''
     = Inr demo_admin"
    "get_current_user demo_jose (fake_users_db demo_hash) (Datetime 60500000) ''admin.60''
     = Inr demo_admin"
    by (simp_all add: get_current_user_def decode_defs validate_defs get_user_def
          fake_users_db_def demo_jose_def demo_tokens_def demo_admin_def config_defs time_defs)
  have n: "\<not> spec_expiry_in_future demo_jose (Datetime 0) ''admin''"
    "\<not> spec_expiry_in_future demo_jose (Datetime 60500000) ''admin.60''"
    by (simp_all add: spec_expiry_in_future_def embedded_claims_def demo_jose_def
          demo_tokens_def)
  from g n show ?thesis by simp
qed

subsection \<open>What a rejected token shows to the client\<close>

text \<open>
  C3. The claim that every rejected token surfaces as the one generic 401, or as the
  400 of a disabled identity, does not hold of the code: the token of \<^verbatim>\<open>admin\<close> whose
  payload has a null \<^verbatim>\<open>"exp"\<close> verifies under the process key, \<^verbatim>\<open>int(None)\<close> raises
  \<open>TypeError\<close> inside \<^verbatim>\<open>jwt.decode\<close>, and \<open>get_current_user\<close>, which catches
  \<^verbatim>\<open>JWTError\<close> only, lets it through. The same token with an expiry that \<^verbatim>\<open>int\<close>
  converts, once expired, gets \<open>credentials_exception\<close>.
\<close>

theorem get_current_user_null_exp_uncaught:
  "embedded_claims demo_jose ''admin.null'' = Some [(''sub'', PStr ''admin''), (''exp'', PNone)]
   \<and> get_current_user demo_jose (fake_users_db demo_hash) (Datetime 0) ''admin.null''
       = Inl TypeError
   \<and> TypeError \<noteq> credentials_exception
   \<and> TypeError \<noteq> HTTPException 400 ''Inactive user'' []
   \<and> get_current_user demo_jose (fake_users_db demo_hash) (Datetime 61000000) ''admin.60''
       = Inl credentials_exception"
  by (simp add: get_current_user_def decode_defs validate_defs is_JWTError_def
        credentials_exception_def demo_jose_def demo_tokens_def config_defs time_defs)

subsection \<open>A token without a subject\<close>

text \<open>
  C10. The claim that every correctly signed, unexpired token without a subject gets
  \<open>credentials_exception\<close> does not hold of the code: a token without \<^verbatim>\<open>"sub"\<close> whose
  payload has a null \<^verbatim>\<open>"iat"\<close> beside an expiry in the future, or a null \<^verbatim>\<open>"exp"\<close>,
  makes \<^verbatim>\<open>jwt.decode\<close> raise \<open>TypeError\<close>, which \<open>get_current_user\<close> does not catch.
  Without such a claim, a token with no subject or a null one gets
  \<open>credentials_exception\<close>.
\<close>

theorem get_current_user_missing_sub_uncaught:
  "embedded_claims demo_jose ''.3600.iat-null'' = Some [(''exp'', PInt 3600), (''iat'', PNone)]
   \<and> get_current_user demo_jose (fake_users_db demo_hash) (Datetime 0) ''.3600.iat-null''
       = Inl TypeError
   \<and> get_current_user demo_jose (fake_users_db demo_hash) (Datetime 0) ''.null''
       = Inl TypeError
   \<and> TypeError \<noteq> credentials_exception
   \<and> get_current_user demo_jose (fake_users_db demo_hash) (Datetime 0) ''.3600''
       = Inl credentials_exception
   \<and> get_current_user demo_jose (fake_users_db demo_hash) (Datetime 0) ''null.3600''
       = Inl credentials_exception"
  by (simp add: get_current_user_def decode_defs validate_defs is_JWTError_def
        credentials_exception_def demo_jose_def demo_tokens_def config_defs time_defs)

end
